theory Spec2Isabelle
  imports Complex_Main
begin

section \<open>Inventory allocation and reconciliation: the embedding\<close>

text \<open>
  The pages of the application are event handlers over a remote table store. Each handler
  is embedded as a function from the handler's inputs (form state, loaded snapshot) and the
  tables it touches to an outcome and the tables afterwards. Calls that can fail on the
  remote side take their failure from an explicit environment record, so that every
  \<^verbatim>\<open>throw\<close>, every ignored error and every early \<^verbatim>\<open>return\<close> of the source is a branch.

  Quantities and amounts are JavaScript numbers in the source, that is, binary64 values;
  they are embedded as the reals they denote. The subtraction that the page performs in
  place on the stock adjustments is embedded with its rounding (\<open>doubleSub\<close> below); all
  other arithmetic is taken exactly. Dates are embedded as the millisecond time value that
  \<^verbatim>\<open>new Date(s).getTime()\<close> yields.

  Field names follow the source. Where two interfaces share a field name, the later record
  carries a short prefix (\<open>item_product_id\<close>, \<open>adj_batch_id\<close>, ...), and the \<^verbatim>\<open>id\<close>
  column of a row is named after its table (\<open>batch_row_id\<close>). The column \<^verbatim>\<open>notes\<close> is
  a reserved word of the prover and carries a prefix everywhere.
\<close>

subsection \<open>Dispatch documents: line items and stock adjustments\<close>

record ChallanItem =
  item_product_id :: string
  batch_id :: string
  quantity :: real
  pack_size :: "real option"
  pack_type :: "string option"
  number_of_packs :: "real option"

record StockAdjustment =
  adj_batch_id :: string
  adjustment :: real

text \<open>
  Subtraction of binary64 numbers: the exact difference, rounded to the nearest value with
  a 53-bit significand, ties going to the even significand. \<open>ulpExponent x\<close> is the
  exponent of the spacing of the binary64 values around \<open>x\<close> (from \<open>- 1074\<close> on, the
  spacing of the subnormal numbers). Magnitudes from \<open>2^1024\<close> on, where the language
  yields an infinity, are outside the model.
\<close>

definition roundHalfEven :: "real \<Rightarrow> int" where
  "roundHalfEven r =
     (let f = \<lfloor>r\<rfloor>; d = r - of_int f
      in if d < 1 / 2 then f else if 1 / 2 < d then f + 1 else if even f then f else f + 1)"

definition ulpExponent :: "real \<Rightarrow> int" where
  "ulpExponent x = max (\<lfloor>log 2 \<bar>x\<bar>\<rfloor> - 52) (- 1074)"

definition round64 :: "real \<Rightarrow> real" where
  "round64 x =
     (if x = 0 then 0
      else of_int (roundHalfEven (x / 2 powr of_int (ulpExponent x))) *
           2 powr of_int (ulpExponent x))"

definition doubleSub :: "real \<Rightarrow> real \<Rightarrow> real" where
  "doubleSub x y = round64 (x - y)"

text \<open>
  The first loop of the editing branch pushes one entry per original line item, without
  merging entries of the same batch.
\<close>

definition originalAdjustments :: "ChallanItem list \<Rightarrow> StockAdjustment list" where
  "originalAdjustments originalItems =
     map (\<lambda>originalItem. \<lparr>adj_batch_id = batch_id originalItem,
                            adjustment = quantity originalItem\<rparr>) originalItems"

text \<open>
  One round of the second loop: \<^verbatim>\<open>find\<close> returns the first entry of the batch, whose
  adjustment is decreased in place (\<^verbatim>\<open>-=\<close>, a binary64 subtraction); when there is none
  the negated quantity is pushed at the end.
\<close>

fun subtractNewItem :: "ChallanItem \<Rightarrow> StockAdjustment list \<Rightarrow> StockAdjustment list" where
  "subtractNewItem newItem [] =
     [\<lparr>adj_batch_id = batch_id newItem, adjustment = - quantity newItem\<rparr>]"
| "subtractNewItem newItem (adj # rest) =
     (if adj_batch_id adj = batch_id newItem
      then adj\<lparr>adjustment := doubleSub (adjustment adj) (quantity newItem)\<rparr> # rest
      else adj # subtractNewItem newItem rest)"

definition stockAdjustments :: "ChallanItem list \<Rightarrow> ChallanItem list \<Rightarrow> StockAdjustment list" where
  "stockAdjustments originalItems items =
     foldl (\<lambda>adjs newItem. subtractNewItem newItem adjs) (originalAdjustments originalItems) items"







subsection \<open>The tables behind the dispatch page, and the remote environment\<close>

datatype approval_status = pending_approval | approved | rejected

text \<open>
  A row of \<^verbatim>\<open>delivery_challans\<close>: the columns of the interface and those the handlers
  write. The row's \<^verbatim>\<open>id\<close> is the key of the table.
\<close>

record DeliveryChallan =
  challan_number :: string
  customer_id :: string
  sales_order_id :: "string option"
  challan_date :: string
  delivery_address :: string
  vehicle_number :: "string option"
  driver_name :: "string option"
  challan_notes :: "string option"
  approval_status :: approval_status
  created_by :: string
  approved_by :: "string option"
  approved_at :: "int option"
  rejected_by :: "string option"
  rejected_at :: "int option"
  rejection_reason :: "nat list option"

record SalesOrder =
  status :: string
  is_archived :: bool
  archived_at :: "int option"
  archived_by :: "string option"
  archive_reason :: "string option"

record ChallanForm =
  form_challan_number :: string
  form_customer_id :: string
  form_sales_order_id :: string
  form_challan_date :: string
  form_delivery_address :: string
  form_vehicle_number :: string
  form_driver_name :: string
  form_notes :: string

text \<open>
  \<open>batch_stock\<close> is the \<^verbatim>\<open>current_stock\<close> column of \<^verbatim>\<open>batches\<close> by batch id;
  \<open>delivery_challan_items\<close> pairs each line item with its \<^verbatim>\<open>challan_id\<close>.
\<close>

record dispatch_tables =
  batch_stock :: "string \<rightharpoonup> real"
  delivery_challans :: "string \<rightharpoonup> DeliveryChallan"
  delivery_challan_items :: "(string \<times> ChallanItem) list"
  sales_orders :: "string \<rightharpoonup> SalesOrder"

text \<open>
  What the remote side answers. \<open>auth_user\<close> is the id of the signed-in user, if any;
  \<open>confirmed\<close> is the answer to the confirmation dialog; each \<open>_error\<close> field says
  that the call of that name comes back with an error (for the stock writes, depending on
  the batch id and on the number sent);
  \<open>clock\<close> is the time value of \<^verbatim>\<open>new Date()\<close>.
\<close>

record dispatch_env =
  auth_user :: "string option"
  confirmed :: bool
  clock :: int
  rpc_error :: "string \<Rightarrow> real \<Rightarrow> bool"
  stock_select_error :: "string \<Rightarrow> bool"
  stock_update_error :: "string \<Rightarrow> real \<Rightarrow> bool"
  challan_select_error :: bool
  challan_update_error :: bool
  challan_delete_error :: bool
  items_delete_error :: bool
  items_insert_error :: bool
  order_update_error :: bool

subsection \<open>Writing the stock adjustments\<close>

text \<open>
  Modelled from the spec: the stored procedure \<^verbatim>\<open>update_batch_stock\<close> is not part of the
  sources; the spec describes it as an atomic stock increment. \<open>None\<close> is an error
  answer.
\<close>

definition update_batch_stock ::
  "dispatch_env \<Rightarrow> (string \<rightharpoonup> real) \<Rightarrow> string \<Rightarrow> real \<Rightarrow> (string \<rightharpoonup> real) option" where
  "update_batch_stock env tbl p_batch_id p_adjustment =
     (if rpc_error env p_batch_id p_adjustment then None
      else Some (case tbl p_batch_id of
                   None \<Rightarrow> tbl
                 | Some current \<Rightarrow> tbl(p_batch_id \<mapsto> current + p_adjustment)))"

text \<open>
  The fallback's \<^verbatim>\<open>select('current_stock').eq('id', ...).single()\<close>: no data on an error or
  when the row is missing.
\<close>

definition selectCurrentStock :: "dispatch_env \<Rightarrow> (string \<rightharpoonup> real) \<Rightarrow> string \<Rightarrow> real option" where
  "selectCurrentStock env tbl b = (if stock_select_error env b then None else tbl b)"

text \<open>The fallback's direct update; its error is not looked at by the caller.\<close>

definition updateCurrentStock ::
  "dispatch_env \<Rightarrow> (string \<rightharpoonup> real) \<Rightarrow> string \<Rightarrow> real \<Rightarrow> (string \<rightharpoonup> real)" where
  "updateCurrentStock env tbl b newStock =
     (if stock_update_error env b newStock \<or> tbl b = None then tbl else tbl(b \<mapsto> newStock))"

text \<open>One round of the third loop of the editing branch.\<close>

definition writeAdjustment ::
  "dispatch_env \<Rightarrow> (string \<rightharpoonup> real) \<Rightarrow> StockAdjustment \<Rightarrow> (string \<rightharpoonup> real)" where
  "writeAdjustment env tbl adj =
     (if adjustment adj \<noteq> 0 then
        (case update_batch_stock env tbl (adj_batch_id adj) (adjustment adj) of
           Some tbl' \<Rightarrow> tbl'
         | None \<Rightarrow>
             (case selectCurrentStock env tbl (adj_batch_id adj) of
                Some current \<Rightarrow>
                  updateCurrentStock env tbl (adj_batch_id adj) (current + adjustment adj)
              | None \<Rightarrow> tbl))
      else tbl)"

definition applyStockAdjustments ::
  "dispatch_env \<Rightarrow> (string \<rightharpoonup> real) \<Rightarrow> StockAdjustment list \<Rightarrow> (string \<rightharpoonup> real)" where
  "applyStockAdjustments env tbl adjs = foldl (writeAdjustment env) tbl adjs"



subsection \<open>Saving an edited dispatch document\<close>

datatype save_error = NotAuthenticated | UpdateError | DeleteItemsError | ItemsError

datatype submit_outcome = ValidationAlert string | SaveFailed save_error | Saved

text \<open>JavaScript's \<^verbatim>\<open>s || null\<close> on a string.\<close>

definition orNull :: "string \<Rightarrow> string option" where
  "orNull s = (if s = [] then None else Some s)"

definition invalidItem :: "ChallanItem \<Rightarrow> bool" where
  "invalidItem item = (item_product_id item = [] \<or> batch_id item = [] \<or> quantity item \<le> 0)"

text \<open>The columns that \<^verbatim>\<open>update(challanData)\<close> sets on the row; the others stay.\<close>

definition updateChallanData :: "ChallanForm \<Rightarrow> string \<Rightarrow> DeliveryChallan \<Rightarrow> DeliveryChallan" where
  "updateChallanData formData user row =
     row\<lparr>challan_number := form_challan_number formData,
         customer_id := form_customer_id formData,
         sales_order_id := orNull (form_sales_order_id formData),
         challan_date := form_challan_date formData,
         delivery_address := form_delivery_address formData,
         vehicle_number := orNull (form_vehicle_number formData),
         driver_name := orNull (form_driver_name formData),
         challan_notes := orNull (form_notes formData),
         approval_status := pending_approval,
         created_by := user\<rparr>"

text \<open>
  \<^verbatim>\<open>handleSubmit\<close> of the dispatch page when \<^verbatim>\<open>editingChallan\<close> is set (the creating
  branch is not needed below). The stock adjustments are written first; a later
  \<^verbatim>\<open>throw\<close> leaves them in place, so the tables are returned with the outcome.
\<close>

definition handleSubmit_editing ::
  "dispatch_env \<Rightarrow> string \<Rightarrow> ChallanForm \<Rightarrow> ChallanItem list \<Rightarrow> ChallanItem list \<Rightarrow>
     dispatch_tables \<Rightarrow> submit_outcome \<times> dispatch_tables" where
  "handleSubmit_editing env editingId formData originalItems items db =
     (if filter invalidItem items \<noteq> [] then
        (ValidationAlert ''Please select product, batch, and enter quantity for all items before saving.'', db)
      else if filter (\<lambda>item. batch_id item = []) items \<noteq> [] then
        (ValidationAlert ''Some items do not have a batch selected. Please select a batch for all items.'', db)
      else
        (case auth_user env of
           None \<Rightarrow> (SaveFailed NotAuthenticated, db)
         | Some user \<Rightarrow>
             (let db1 = db\<lparr>batch_stock :=
                          applyStockAdjustments env (batch_stock db)
                            (stockAdjustments originalItems items)\<rparr>
              in case (if challan_update_error env then None
                       else delivery_challans db1 editingId) of
                   None \<Rightarrow> (SaveFailed UpdateError, db1)
                 | Some row \<Rightarrow>
                     (let db2 = db1\<lparr>delivery_challans :=
                                  (delivery_challans db1)
                                    (editingId \<mapsto> updateChallanData formData user row)\<rparr>
                      in if items_delete_error env then (SaveFailed DeleteItemsError, db2)
                         else
                           (let db3 = db2\<lparr>delivery_challan_items :=
                                        filter (\<lambda>(challan_id, item). challan_id \<noteq> editingId)
                                          (delivery_challan_items db2)\<rparr>
                            in if items_insert_error env then (SaveFailed ItemsError, db3)
                               else (Saved,
                                     db3\<lparr>delivery_challan_items :=
                                       delivery_challan_items db3 @
                                         map (\<lambda>item. (editingId, item)) items\<rparr>))))))"

subsection \<open>Deleting a dispatch document\<close>

datatype delete_outcome = DeleteCancelled | DeleteFailed | Deleted

text \<open>The update that \<^verbatim>\<open>handleDelete\<close> sends for the linked sales order.\<close>

definition revertOrder :: "SalesOrder \<Rightarrow> SalesOrder" where
  "revertOrder so =
     so\<lparr>status := ''pending_delivery'', is_archived := False, archived_at := None,
        archived_by := None, archive_reason := None\<rparr>"

text \<open>
  \<^verbatim>\<open>handleDelete\<close>: the row is read for its \<^verbatim>\<open>sales_order_id\<close> (no data on an error or a
  missing row), then deleted; a delete error aborts. The order update's error is not looked
  at. The handler sends nothing to \<^verbatim>\<open>batches\<close> and nothing to
  \<^verbatim>\<open>delivery_challan_items\<close>; what the store's schema does to the items of a deleted row
  is not in the sources and is left out.
\<close>

definition handleDelete ::
  "dispatch_env \<Rightarrow> string \<Rightarrow> dispatch_tables \<Rightarrow> delete_outcome \<times> dispatch_tables" where
  "handleDelete env challanId db =
     (if \<not> confirmed env then (DeleteCancelled, db)
      else
        (let dcData = (if challan_select_error env then None
                       else delivery_challans db challanId)
         in if challan_delete_error env then (DeleteFailed, db)
            else
              (let db1 = db\<lparr>delivery_challans := (delivery_challans db)(challanId := None)\<rparr>
               in case dcData of
                    None \<Rightarrow> (Deleted, db1)
                  | Some row \<Rightarrow>
                      (case sales_order_id row of
                         None \<Rightarrow> (Deleted, db1)
                       | Some so_id \<Rightarrow>
                           (case (if order_update_error env then None
                                  else sales_orders db1 so_id) of
                              None \<Rightarrow> (Deleted, db1)
                            | Some so \<Rightarrow>
                                (Deleted,
                                 db1\<lparr>sales_orders :=
                                   (sales_orders db1)(so_id \<mapsto> revertOrder so)\<rparr>))))))"

subsection \<open>Approval of dispatch documents\<close>

datatype approval_outcome = ApprovalCancelled | ReasonAlert | ApprovalFailed | ApprovalDone

text \<open>An update of one row by id; no row, no change.\<close>

definition updateChallan ::
  "string \<Rightarrow> (DeliveryChallan \<Rightarrow> DeliveryChallan) \<Rightarrow> dispatch_tables \<Rightarrow> dispatch_tables" where
  "updateChallan challanId f db =
     (case delivery_challans db challanId of
        None \<Rightarrow> db
      | Some row \<Rightarrow> db\<lparr>delivery_challans := (delivery_challans db)(challanId \<mapsto> f row)\<rparr>)"

definition handleApproveChallan ::
  "dispatch_env \<Rightarrow> string \<Rightarrow> dispatch_tables \<Rightarrow> approval_outcome \<times> dispatch_tables" where
  "handleApproveChallan env challanId db =
     (if \<not> confirmed env then (ApprovalCancelled, db)
      else
        (case auth_user env of
           None \<Rightarrow> (ApprovalFailed, db)
         | Some user \<Rightarrow>
             if challan_update_error env then (ApprovalFailed, db)
             else (ApprovalDone,
                   updateChallan challanId
                     (\<lambda>row. row\<lparr>approval_status := approved, approved_by := Some user,
                                 approved_at := Some (clock env)\<rparr>) db)))"

text \<open>
  The rejection reason is typed text and is trimmed, so it is embedded as the language has
  it, a list of UTF-16 code units. \<^verbatim>\<open>String.prototype.trim\<close> removes white space and
  line terminators at both ends: the code units 9 to 13, 32, 160, 5760, 8192 to 8202, 8232,
  8233, 8239, 8287, 12288 and 65279.
\<close>

definition isWhiteSpace :: "nat \<Rightarrow> bool" where
  "isWhiteSpace u =
     ((9 \<le> u \<and> u \<le> 13) \<or> (8192 \<le> u \<and> u \<le> 8202) \<or>
      u \<in> set [32, 160, 5760, 8232, 8233, 8239, 8287, 12288, 65279])"

definition trim :: "nat list \<Rightarrow> nat list" where
  "trim s = rev (dropWhile isWhiteSpace (rev (dropWhile isWhiteSpace s)))"

text \<open>The code units of a string of ASCII characters.\<close>

definition codeUnits :: "string \<Rightarrow> nat list" where
  "codeUnits s = map of_char s"

definition handleRejectChallan ::
  "dispatch_env \<Rightarrow> string option \<Rightarrow> nat list \<Rightarrow> dispatch_tables \<Rightarrow>
     approval_outcome \<times> dispatch_tables" where
  "handleRejectChallan env challanToReject rejectionReason db =
     (case challanToReject of
        None \<Rightarrow> (ReasonAlert, db)
      | Some challanId \<Rightarrow>
          if challanId = [] \<or> trim rejectionReason = [] then (ReasonAlert, db)
          else
            (case auth_user env of
               None \<Rightarrow> (ApprovalFailed, db)
             | Some user \<Rightarrow>
                 if challan_update_error env then (ApprovalFailed, db)
                 else (ApprovalDone,
                       updateChallan challanId
                         (\<lambda>row. row\<lparr>approval_status := rejected, rejected_by := Some user,
                                     rejected_at := Some (clock env),
                                     rejection_reason := Some rejectionReason\<rparr>) db)))"

text \<open>
  The page offers the handlers through its controls. The approve and reject buttons are
  rendered for a row only when it is pending and the profile's role is \<^verbatim>\<open>admin\<close>; the
  edit button is rendered for every row when \<^verbatim>\<open>canManage\<close> holds. The role is
  \<^verbatim>\<open>profile?.role\<close>, absent without a profile.
\<close>

definition approvalControlsShown :: "string option \<Rightarrow> DeliveryChallan \<Rightarrow> bool" where
  "approvalControlsShown role challan =
     (approval_status challan = pending_approval \<and> role = Some ''admin'')"

definition canManage :: "string option \<Rightarrow> bool" where
  "canManage role =
     (role = Some ''admin'' \<or> role = Some ''accounts'' \<or> role = Some ''sales'' \<or>
      role = Some ''warehouse'')"

datatype challan_action =
  ClickApprove
| ConfirmReject "nat list"
| SaveEdit ChallanForm "ChallanItem list" "ChallanItem list"

text \<open>
  One user action on a row of the page's loaded list, by a user of the given role.
  \<open>listed\<close> is the row as the list holds it and \<open>challanId\<close> its id; the stored row
  of that id may have changed since the list was loaded. The controls are rendered from the
  listed row; the handler that runs reads and writes the store by id. Nothing happens when
  the control of the action is not rendered.
\<close>

definition challanStep ::
  "dispatch_env \<Rightarrow> string option \<Rightarrow> DeliveryChallan \<Rightarrow> string \<Rightarrow> challan_action \<Rightarrow>
     dispatch_tables \<Rightarrow> dispatch_tables" where
  "challanStep env role listed challanId action db =
     (case action of
        ClickApprove \<Rightarrow>
          if approvalControlsShown role listed
          then snd (handleApproveChallan env challanId db) else db
      | ConfirmReject rejectionReason \<Rightarrow>
          if approvalControlsShown role listed
          then snd (handleRejectChallan env (Some challanId) rejectionReason db) else db
      | SaveEdit formData originalItems items \<Rightarrow>
          if canManage role
          then snd (handleSubmit_editing env challanId formData originalItems items db)
          else db)"

definition statusOf :: "dispatch_tables \<Rightarrow> string \<Rightarrow> approval_status option" where
  "statusOf db challanId = map_option approval_status (delivery_challans db challanId)"

subsection \<open>The batch snapshot and FIFO selection\<close>

text \<open>
  A row of \<^verbatim>\<open>batches\<close>. The page's interface lists the columns that \<^verbatim>\<open>loadBatches\<close>
  selects (id, batch number, product, current stock, expiry date, packaging details, import
  date). The row also has \<open>is_active\<close>, which the query filters on, and
  \<open>reserved_stock\<close>, which the data model defines and the page's labels read as
  \<^verbatim>\<open>b.reserved_stock || 0\<close> but the query does not select. The record is the whole row, so
  that a property can speak of the reserved stock of a selected batch; the functions below
  read only what the source reads.
\<close>

record Batch =
  batch_row_id :: string
  batch_number :: string
  product_id :: string
  current_stock :: real
  reserved_stock :: real
  expiry_date :: "int option"
  packaging_details :: "string option"
  import_date :: "int option"
  is_active :: bool

definition isExpired :: "int \<Rightarrow> int option \<Rightarrow> bool" where
  "isExpired today expiryDate =
     (case expiryDate of None \<Rightarrow> False | Some expiry \<Rightarrow> expiry < today)"

text \<open>
  The query of \<^verbatim>\<open>loadBatches\<close>: active rows with a positive current stock, in ascending
  order of import date. The store puts rows without an import date last; rows with the same
  date are kept in table order here (the store fixes no order among them).
\<close>

definition batchesQuery :: "Batch list \<Rightarrow> Batch list" where
  "batchesQuery rows =
     (let fetched = filter (\<lambda>b. is_active b \<and> 0 < current_stock b) rows
      in sort_key (\<lambda>b. the (import_date b)) (filter (\<lambda>b. import_date b \<noteq> None) fetched) @
         filter (\<lambda>b. import_date b = None) fetched)"

text \<open>
  \<^verbatim>\<open>loadBatches\<close>: the snapshot becomes the answer of the query; on an error it is left
  as it was.
\<close>

definition loadBatches :: "bool \<Rightarrow> Batch list \<Rightarrow> Batch list \<Rightarrow> Batch list" where
  "loadBatches query_error rows batches = (if query_error then batches else batchesQuery rows)"

text \<open>
  The sort key of \<^verbatim>\<open>getFIFOBatch\<close>, \<^verbatim>\<open>new Date(b.import_date!).getTime()\<close>; a null date
  gives the time value 0.
\<close>

definition importTime :: "Batch \<Rightarrow> int" where
  "importTime b = (case import_date b of None \<Rightarrow> 0 | Some t \<Rightarrow> t)"

text \<open>
  \<^verbatim>\<open>getFIFOBatch\<close>: filter by product and expiry, sort by import time (the sort of the
  language is stable, as \<open>sort_key\<close> is), take the first element or null. \<open>today\<close>
  is the time value of \<^verbatim>\<open>new Date()\<close>, taken as one instant for the whole filter.
\<close>

definition getFIFOBatch :: "int \<Rightarrow> Batch list \<Rightarrow> string \<Rightarrow> Batch option" where
  "getFIFOBatch today batches productId =
     (let productBatches =
            sort_key importTime
              (filter (\<lambda>b. product_id b = productId \<and> \<not> isExpired today (expiry_date b)) batches)
      in case productBatches of [] \<Rightarrow> None | first # _ \<Rightarrow> Some first)"

text \<open>What the query and the selection together require of a row.\<close>

definition selectable :: "int \<Rightarrow> string \<Rightarrow> Batch \<Rightarrow> bool" where
  "selectable today productId b =
     (is_active b \<and> 0 < current_stock b \<and> product_id b = productId \<and>
      \<not> isExpired today (expiry_date b))"

text \<open>
  The selection as the specification words it: a batch qualifies when its product matches,
  it is not expired and its available stock, current minus reserved, is positive; the
  result is a qualifying batch of least import time, or none when no batch qualifies.
\<close>

definition availableStock :: "Batch \<Rightarrow> real" where
  "availableStock b = current_stock b - reserved_stock b"

definition qualifies :: "int \<Rightarrow> string \<Rightarrow> Batch \<Rightarrow> bool" where
  "qualifies today productId b =
     (product_id b = productId \<and> \<not> isExpired today (expiry_date b) \<and> 0 < availableStock b)"

definition fifoAsSpecified :: "int \<Rightarrow> Batch list \<Rightarrow> string \<Rightarrow> Batch option \<Rightarrow> bool" where
  "fifoAsSpecified today batches productId result =
     (case result of
        None \<Rightarrow> \<not> list_ex (qualifies today productId) batches
      | Some b \<Rightarrow>
          b \<in> set batches \<and> qualifies today productId b \<and>
          list_all (\<lambda>b'. qualifies today productId b' \<longrightarrow> importTime b \<le> importTime b') batches)"

subsection \<open>Numbering dispatch documents\<close>

definition digitChar :: "nat \<Rightarrow> char" where
  "digitChar d = ''0123456789'' ! d"

definition isDigit :: "char \<Rightarrow> bool" where
  "isDigit c = (c \<in> set ''0123456789'')"

definition digitValue :: "char \<Rightarrow> nat" where
  "digitValue c = of_char c - 48"

text \<open>
  \<^verbatim>\<open>String(n)\<close> and \<^verbatim>\<open>n.toString()\<close> of a natural number, in decimal. Numbers are
  naturals in this part; those of the language agree with them below \<open>2^53\<close>.
\<close>

fun toString :: "nat \<Rightarrow> string" where
  "toString n = (if n < 10 then [digitChar n] else toString (n div 10) @ [digitChar (n mod 10)])"

definition padStart :: "nat \<Rightarrow> char \<Rightarrow> string \<Rightarrow> string" where
  "padStart targetLength c s = replicate (targetLength - length s) c @ s"

text \<open>\<^verbatim>\<open>s.slice(-2)\<close>: the last two characters, or all of a shorter string.\<close>

definition sliceLast2 :: "string \<Rightarrow> string" where
  "sliceLast2 s = drop (length s - 2) s"

text \<open>The group of \<^verbatim>\<open>/(\d+)$/\<close>: the longest run of digits at the end.\<close>

definition trailingDigits :: "string \<Rightarrow> string" where
  "trailingDigits s = rev (takeWhile isDigit (rev s))"

text \<open>\<^verbatim>\<open>parseInt(ds, 10)\<close> on a string of digits.\<close>

definition parseInt :: "string \<Rightarrow> nat" where
  "parseInt ds = foldl (\<lambda>acc c. 10 * acc + digitValue c) 0 ds"

text \<open>The number a stored challan number contributes: 0 when the pattern does not match.\<close>

definition challanSuffix :: "string \<Rightarrow> nat" where
  "challanSuffix challan_no =
     (let m = trailingDigits challan_no in if m = [] then 0 else parseInt m)"

definition startsWith :: "string \<Rightarrow> string \<Rightarrow> bool" where
  "startsWith p s = (take (length p) s = p)"

text \<open>
  The filter \<^verbatim>\<open>challan_number.like.DO-YY%\<close> or \<^verbatim>\<open>challan_number.like.DC-YY%\<close> over the
  stored challan numbers.
\<close>

definition challansLike :: "string \<Rightarrow> string list \<Rightarrow> string list" where
  "challansLike yearCode stored =
     filter (\<lambda>c. startsWith (''DO-'' @ yearCode) c \<or> startsWith (''DC-'' @ yearCode) c) stored"

text \<open>
  How a lookup ends. The client library answers with a data field that is null when the
  call failed (\<open>ErrorAnswer\<close>); the function reads only that field. \<open>Thrown\<close> is an
  exception raised inside the \<^verbatim>\<open>try\<close> block.
\<close>

datatype lookup = Answered | ErrorAnswer | Thrown

text \<open>
  The settings row, when there is one: the calendar year that \<^verbatim>\<open>getFullYear()\<close> reports
  for \<^verbatim>\<open>financial_year_start\<close>, when that column is set.
\<close>

record AppSettings =
  financial_year_start :: "nat option"

text \<open>\<^verbatim>\<open>Math.max(...numbers)\<close> on a list that is not empty.\<close>

definition mathMax :: "nat list \<Rightarrow> nat" where
  "mathMax numbers = fold max (tl numbers) (hd numbers)"

definition nextNumberOf :: "string list option \<Rightarrow> nat" where
  "nextNumberOf allChallans =
     (case allChallans of
        None \<Rightarrow> 1
      | Some cs \<Rightarrow>
          if cs \<noteq> [] then
            (let numbers = map challanSuffix cs
             in if numbers \<noteq> [] then mathMax numbers + 1 else 1)
          else 1)"

text \<open>
  The year code: the last two digits of the financial year when the settings row has one,
  of the current year otherwise.
\<close>

definition yearCodeOf :: "nat \<Rightarrow> AppSettings option \<Rightarrow> string" where
  "yearCodeOf currentYear settings =
     (case settings of
        None \<Rightarrow> sliceLast2 (toString currentYear)
      | Some row \<Rightarrow>
          (case financial_year_start row of
             None \<Rightarrow> sliceLast2 (toString currentYear)
           | Some fyYear \<Rightarrow> sliceLast2 (toString fyYear)))"

text \<open>
  \<^verbatim>\<open>generateNextChallanNumber\<close>. \<open>currentYear\<close> is \<^verbatim>\<open>new Date().getFullYear()\<close>,
  \<open>settingsRow\<close> the first row of \<^verbatim>\<open>app_settings\<close> if any, \<open>stored\<close> the challan
  numbers of \<^verbatim>\<open>delivery_challans\<close>. The filter that drops NaN drops nothing, since
  \<open>challanSuffix\<close> is a number on every string.
\<close>

definition generateNextChallanNumber ::
  "nat \<Rightarrow> lookup \<Rightarrow> AppSettings option \<Rightarrow> lookup \<Rightarrow> string list \<Rightarrow> string" where
  "generateNextChallanNumber currentYear settingsLookup settingsRow challansLookup stored =
     (if settingsLookup = Thrown then ''DO-25-0001''
      else
        (let settings = (if settingsLookup = Answered then settingsRow else None);
             yearCode = yearCodeOf currentYear settings
         in if challansLookup = Thrown then ''DO-25-0001''
            else
              (let allChallans = (if challansLookup = Answered
                                  then Some (challansLike yearCode stored) else None);
                   paddedNumber = padStart 4 (CHR ''0'') (toString (nextNumberOf allChallans))
               in ''DO-'' @ yearCode @ ''-'' @ paddedNumber)))"

subsection \<open>Material returns\<close>

record ReturnItem =
  ret_product_id :: string
  ret_batch_id :: string
  quantity_returned :: real
  original_quantity :: real
  condition :: string
  ret_notes :: "string option"

record ReturnForm =
  ret_customer_id :: string
  original_dc_id :: string
  return_date :: string
  return_type :: string
  return_reason :: string
  return_form_notes :: string

text \<open>The row that the handler inserts into \<^verbatim>\<open>material_returns\<close>, and its item rows.\<close>

record MaterialReturn =
  mr_customer_id :: string
  mr_original_dc_id :: string
  mr_return_date :: string
  mr_return_type :: string
  mr_return_reason :: string
  mr_notes :: string
  mr_status :: string
  mr_created_by :: "string option"

record ReturnItemRow =
  return_id :: string
  row_product_id :: string
  row_batch_id :: string
  row_quantity_returned :: real
  row_original_quantity :: real
  row_condition :: string
  row_notes :: "string option"

record return_tables =
  material_returns :: "(string \<times> MaterialReturn) list"
  material_return_items :: "ReturnItemRow list"

text \<open>
  \<open>user_id\<close> is \<^verbatim>\<open>user?.id\<close>; \<open>new_return_id\<close> is the id that the store gives the
  inserted row.
\<close>

record return_env =
  user_id :: "string option"
  new_return_id :: string
  return_insert_error :: bool
  return_items_insert_error :: bool

datatype return_outcome = ReturnAlert string | ReturnFailed | ReturnCreated

definition itemsToInsert :: "string \<Rightarrow> ReturnItem list \<Rightarrow> ReturnItemRow list" where
  "itemsToInsert rid validItems =
     map (\<lambda>item. \<lparr>return_id = rid,
                   row_product_id = ret_product_id item,
                   row_batch_id = ret_batch_id item,
                   row_quantity_returned = quantity_returned item,
                   row_original_quantity = original_quantity item,
                   row_condition = condition item,
                   row_notes = ret_notes item\<rparr>) validItems"

definition handleSubmit_return ::
  "return_env \<Rightarrow> ReturnForm \<Rightarrow> ReturnItem list \<Rightarrow> return_tables \<Rightarrow>
     return_outcome \<times> return_tables" where
  "handleSubmit_return env formData returnItems db =
     (if ret_customer_id formData = [] \<or> original_dc_id formData = [] \<or>
         return_reason formData = [] then
        (ReturnAlert ''Please complete all required fields'', db)
      else
        (let validItems = filter (\<lambda>item. 0 < quantity_returned item) returnItems
         in if length validItems = 0 then
              (ReturnAlert ''Please enter at least one item with return quantity'', db)
            else if list_ex (\<lambda>item. original_quantity item < quantity_returned item) validItems then
              (ReturnAlert ''Return quantity cannot exceed original quantity'', db)
            else if return_insert_error env then (ReturnFailed, db)
            else
              (let returnData =
                     \<lparr>mr_customer_id = ret_customer_id formData,
                      mr_original_dc_id = original_dc_id formData,
                      mr_return_date = return_date formData,
                      mr_return_type = return_type formData,
                      mr_return_reason = return_reason formData,
                      mr_notes = return_form_notes formData,
                      mr_status = ''pending_approval'',
                      mr_created_by = user_id env\<rparr>;
                   db1 = db\<lparr>material_returns :=
                              material_returns db @ [(new_return_id env, returnData)]\<rparr>
               in if return_items_insert_error env then (ReturnFailed, db1)
                  else (ReturnCreated,
                        db1\<lparr>material_return_items :=
                              material_return_items db1 @
                                itemsToInsert (new_return_id env) validItems\<rparr>))))"

subsection \<open>Receivables: recording a payment and its allocations\<close>

record SalesInvoice =
  invoice_id :: string
  invoice_number :: string
  invoice_customer_id :: string
  total_amount :: real
  paid_amount :: "real option"

record PaymentForm =
  payment_number :: string
  payment_date :: string
  amount :: real
  payment_method :: string
  bank_account_id :: string
  reference_number :: string
  payment_form_notes :: string

record CustomerPayment =
  cp_payment_number :: string
  cp_customer_id :: string
  cp_invoice_id :: "string option"
  cp_payment_date :: string
  cp_amount :: real
  cp_payment_method :: string
  cp_bank_account_id :: "string option"
  cp_reference_number :: "string option"
  cp_notes :: "string option"
  cp_created_by :: string

record Allocation =
  alloc_invoice_id :: string
  alloc_payment_id :: string
  allocated_amount :: real
  alloc_created_by :: string

record payment_tables =
  customer_payments :: "(string \<times> CustomerPayment) list"
  invoice_payment_allocations :: "Allocation list"

record payment_env =
  session_user :: "string option"
  new_payment_id :: string
  payment_insert_error :: bool
  allocations_insert_error :: bool

datatype payment_outcome =
  NoInvoiceSelected | PaymentAlert string | PaymentFailed | PaymentRecorded

text \<open>
  \<open>selectedAllocations\<close> is an object keyed by invoice id; it is embedded as the list of
  its entries in key order. \<open>totalAllocated\<close> is the \<^verbatim>\<open>reduce\<close> over its values.
\<close>

definition totalAllocated :: "(string \<times> real) list \<Rightarrow> real" where
  "totalAllocated selectedAllocations = foldl (\<lambda>sum amount. sum + amount) 0 (map snd selectedAllocations)"

definition allocationRows :: "string \<Rightarrow> string \<Rightarrow> (string \<times> real) list \<Rightarrow> Allocation list" where
  "allocationRows pid user selectedAllocations =
     map (\<lambda>(invoiceId, amount).
            \<lparr>alloc_invoice_id = invoiceId, alloc_payment_id = pid,
             allocated_amount = amount, alloc_created_by = user\<rparr>)
       (filter (\<lambda>(invoiceId, amount). 0 < amount) selectedAllocations)"

definition handleSubmit_payment ::
  "payment_env \<Rightarrow> SalesInvoice option \<Rightarrow> PaymentForm \<Rightarrow> (string \<times> real) list \<Rightarrow>
     payment_tables \<Rightarrow> payment_outcome \<times> payment_tables" where
  "handleSubmit_payment env selectedInvoice formData selectedAllocations db =
     (case selectedInvoice of
        None \<Rightarrow> (NoInvoiceSelected, db)
      | Some invoice \<Rightarrow>
          if amount formData < totalAllocated selectedAllocations then
            (PaymentAlert ''Total allocated amount cannot exceed payment amount'', db)
          else if totalAllocated selectedAllocations = 0 then
            (PaymentAlert ''Please allocate the payment to at least one invoice'', db)
          else
            (case session_user env of
               None \<Rightarrow> (PaymentFailed, db)
             | Some user \<Rightarrow>
                 if payment_insert_error env then (PaymentFailed, db)
                 else
                   (let payment =
                          \<lparr>cp_payment_number = payment_number formData,
                           cp_customer_id = invoice_customer_id invoice,
                           cp_invoice_id = None,
                           cp_payment_date = payment_date formData,
                           cp_amount = amount formData,
                           cp_payment_method = payment_method formData,
                           cp_bank_account_id = orNull (bank_account_id formData),
                           cp_reference_number = orNull (reference_number formData),
                           cp_notes = orNull (payment_form_notes formData),
                           cp_created_by = user\<rparr>;
                        db1 = db\<lparr>customer_payments :=
                                   customer_payments db @ [(new_payment_id env, payment)]\<rparr>
                    in if allocations_insert_error env then (PaymentFailed, db1)
                       else (PaymentRecorded,
                             db1\<lparr>invoice_payment_allocations :=
                                   invoice_payment_allocations db1 @
                                     allocationRows (new_payment_id env) user
                                       selectedAllocations\<rparr>))))"

text \<open>The balance that the allocation section shows for an invoice.\<close>

definition balance :: "SalesInvoice \<Rightarrow> real" where
  "balance invoice =
     total_amount invoice - (case paid_amount invoice of None \<Rightarrow> 0 | Some p \<Rightarrow> p)"

text \<open>Setting one key of the object: an existing key keeps its place, a new one goes last.\<close>

fun setKey :: "string \<Rightarrow> real \<Rightarrow> (string \<times> real) list \<Rightarrow> (string \<times> real) list" where
  "setKey k v [] = [(k, v)]"
| "setKey k v (e # es) = (if fst e = k then (k, v) # es else e # setKey k v es)"

text \<open>
  The \<^verbatim>\<open>onChange\<close> of an invoice's amount input. \<open>parsed\<close> is the result of
  \<^verbatim>\<open>parseFloat\<close> on the typed text, \<open>None\<close> for NaN; \<^verbatim>\<open>|| 0\<close> turns NaN into 0. A
  value above the balance raises an alert and leaves the allocations as they are.
\<close>

definition onAllocationChange ::
  "SalesInvoice \<Rightarrow> real option \<Rightarrow> (string \<times> real) list \<Rightarrow> (string \<times> real) list" where
  "onAllocationChange invoice parsed selectedAllocations =
     (let v = (case parsed of None \<Rightarrow> 0 | Some x \<Rightarrow> x)
      in if balance invoice < v then selectedAllocations
         else setKey (invoice_id invoice) v selectedAllocations)"

text \<open>
  The bounds as the specification words them, for the allocations of a submission against
  the customer's invoices: every amount is positive and at most the balance of its invoice,
  and the amounts sum to at most the payment amount.
\<close>

definition withinBalance :: "SalesInvoice list \<Rightarrow> string \<times> real \<Rightarrow> bool" where
  "withinBalance customerInvoices entry =
     (case find (\<lambda>invoice. invoice_id invoice = fst entry) customerInvoices of
        None \<Rightarrow> False
      | Some invoice \<Rightarrow> snd entry \<le> balance invoice)"

definition boundsAsSpecified :: "SalesInvoice list \<Rightarrow> real \<Rightarrow> (string \<times> real) list \<Rightarrow> bool" where
  "boundsAsSpecified customerInvoices paymentAmount selectedAllocations =
     (list_all (\<lambda>entry. 0 < snd entry \<and> withinBalance customerInvoices entry) selectedAllocations \<and>
      sum_list (map snd selectedAllocations) \<le> paymentAmount)"

subsection \<open>Sample data for the scenarios\<close>

text \<open>An environment in which the user is signed in, confirms, and no call errors.\<close>

definition calmEnv :: dispatch_env where
  "calmEnv =
     \<lparr>auth_user = Some ''user-1'', confirmed = True, clock = 1000,
      rpc_error = (\<lambda>b a. False), stock_select_error = (\<lambda>b. False),
      stock_update_error = (\<lambda>b v. False), challan_select_error = False,
      challan_update_error = False, challan_delete_error = False,
      items_delete_error = False, items_insert_error = False, order_update_error = False\<rparr>"

definition lineItem :: "string \<Rightarrow> string \<Rightarrow> real \<Rightarrow> ChallanItem" where
  "lineItem p b q =
     \<lparr>item_product_id = p, batch_id = b, quantity = q, pack_size = None, pack_type = None,
      number_of_packs = None\<rparr>"

definition sampleForm :: ChallanForm where
  "sampleForm =
     \<lparr>form_challan_number = ''DO-25-0007'', form_customer_id = ''cust-1'',
      form_sales_order_id = [], form_challan_date = ''2025-03-01'',
      form_delivery_address = ''Jl. Raya 1, Jakarta'', form_vehicle_number = [],
      form_driver_name = [], form_notes = []\<rparr>"

definition sampleChallan :: "approval_status \<Rightarrow> string option \<Rightarrow> DeliveryChallan" where
  "sampleChallan st so =
     \<lparr>challan_number = ''DO-25-0007'', customer_id = ''cust-1'', sales_order_id = so,
      challan_date = ''2025-03-01'', delivery_address = ''Jl. Raya 1, Jakarta'',
      vehicle_number = None, driver_name = None, challan_notes = None,
      approval_status = st, created_by = ''user-1'', approved_by = None, approved_at = None,
      rejected_by = None, rejected_at = None, rejection_reason = None\<rparr>"

definition sampleOrder :: SalesOrder where
  "sampleOrder =
     \<lparr>status = ''delivered'', is_archived = True, archived_at = Some 900,
      archived_by = Some ''user-1'',
      archive_reason = Some ''Delivery Challan created and all items delivered''\<rparr>"

text \<open>
  Two batches A and B with stocks 100 and 50, one dispatch document \<open>dc-1\<close> of the given
  approval status, linked to the order \<open>so-1\<close> or to none.
\<close>

definition sampleTables :: "approval_status \<Rightarrow> string option \<Rightarrow> dispatch_tables" where
  "sampleTables st so =
     \<lparr>batch_stock = [''A'' \<mapsto> 100, ''B'' \<mapsto> 50],
      delivery_challans = [''dc-1'' \<mapsto> sampleChallan st so],
      delivery_challan_items = [(''dc-1'', lineItem ''P'' ''A'' 20)],
      sales_orders = [''so-1'' \<mapsto> sampleOrder]\<rparr>"





text \<open>Sample data for material returns: no call errors, the tables are empty.\<close>

definition returnEnv :: return_env where
  "returnEnv =
     \<lparr>user_id = Some ''user-1'', new_return_id = ''ret-1'', return_insert_error = False,
      return_items_insert_error = False\<rparr>"

definition sampleReturnForm :: ReturnForm where
  "sampleReturnForm =
     \<lparr>ret_customer_id = ''cust-1'', original_dc_id = ''dc-1'', return_date = ''2025-03-05'',
      return_type = ''quality_issue'', return_reason = ''damaged drums'',
      return_form_notes = []\<rparr>"

definition returnItem :: "string \<Rightarrow> real \<Rightarrow> real \<Rightarrow> ReturnItem" where
  "returnItem b returned original =
     \<lparr>ret_product_id = ''P'', ret_batch_id = b, quantity_returned = returned,
      original_quantity = original, condition = ''good'', ret_notes = Some []\<rparr>"

definition noReturns :: return_tables where
  "noReturns = \<lparr>material_returns = [], material_return_items = []\<rparr>"

text \<open>Sample data for payments: no call errors, the tables are empty.\<close>

definition payEnv :: payment_env where
  "payEnv =
     \<lparr>session_user = Some ''user-1'', new_payment_id = ''pay-1'', payment_insert_error = False,
      allocations_insert_error = False\<rparr>"

definition sampleInvoice :: "string \<Rightarrow> real \<Rightarrow> SalesInvoice" where
  "sampleInvoice i invoiced =
     \<lparr>invoice_id = i, invoice_number = ''INV-'' @ i, invoice_customer_id = ''cust-1'',
      total_amount = invoiced, paid_amount = None\<rparr>"

definition paymentOf :: "real \<Rightarrow> PaymentForm" where
  "paymentOf a =
     \<lparr>payment_number = ''PAY-1'', payment_date = ''2025-03-10'', amount = a,
      payment_method = ''bank_transfer'', bank_account_id = [], reference_number = [],
      payment_form_notes = []\<rparr>"

definition noPayments :: payment_tables where
  "noPayments = \<lparr>customer_payments = [], invoice_payment_allocations = []\<rparr>"

text \<open>Sample batches: an active row of product P with the given stock, dates and id.\<close>

definition sampleBatch :: "string \<Rightarrow> real \<Rightarrow> real \<Rightarrow> int option \<Rightarrow> int \<Rightarrow> Batch" where
  "sampleBatch i stock reserved expiry imported =
     \<lparr>batch_row_id = i, batch_number = ''BN-'' @ i, product_id = ''P'', current_stock = stock,
      reserved_stock = reserved, expiry_date = expiry, packaging_details = None,
      import_date = Some imported, is_active = True\<rparr>"

section \<open>Properties\<close>

declare toString.simps [simp del]

subsection \<open>Binary64 subtraction\<close>











subsection \<open>The entries of one batch\<close>









subsection \<open>Stock adjustments of an edit\<close>






















subsection \<open>Deleting a dispatch document\<close>

text \<open>
  Claim C8. Deleting a dispatch document writes nothing to the stock of any batch. Beyond
  removing the document row, the only row it changes is the sales order linked to the
  document, which is reverted: its status becomes \<^verbatim>\<open>pending_delivery\<close> (and its archive
  markers are cleared with it).
\<close>

theorem delete_restores_no_stock:
  "batch_stock (snd (handleDelete env challanId db)) = batch_stock db \<and>
   (delivery_challans (snd (handleDelete env challanId db)) = delivery_challans db \<or>
    delivery_challans (snd (handleDelete env challanId db)) =
      (delivery_challans db)(challanId := None)) \<and>
   (sales_orders (snd (handleDelete env challanId db)) so_id \<noteq> sales_orders db so_id \<longrightarrow>
      (\<exists>row so. delivery_challans db challanId = Some row \<and> sales_order_id row = Some so_id \<and>
          sales_orders db so_id = Some so \<and>
          sales_orders (snd (handleDelete env challanId db)) so_id = Some (revertOrder so) \<and>
          status (revertOrder so) = ''pending_delivery''))"
  by (auto simp: handleDelete_def Let_def revertOrder_def split: option.splits if_splits)

theorem delete_restores_no_stock_witness:
  "batch_stock (snd (handleDelete calmEnv ''dc-1'' (sampleTables approved (Some ''so-1'')))) =
     [''A'' \<mapsto> 100, ''B'' \<mapsto> 50] \<and>
   fst (handleDelete calmEnv ''dc-1'' (sampleTables approved (Some ''so-1''))) = Deleted \<and>
   delivery_challans (snd (handleDelete calmEnv ''dc-1'' (sampleTables approved (Some ''so-1''))))
     ''dc-1'' = None \<and>
   sales_orders (sampleTables approved (Some ''so-1'')) ''so-1'' = Some sampleOrder \<and>
   sales_orders (snd (handleDelete calmEnv ''dc-1'' (sampleTables approved (Some ''so-1''))))
     ''so-1'' = Some (revertOrder sampleOrder) \<and>
   status (revertOrder sampleOrder) = ''pending_delivery'' \<and> status sampleOrder = ''delivered''"
proof -
  let ?db = "sampleTables approved (Some ''so-1'')"
  have r: "handleDelete calmEnv ''dc-1'' ?db =
      (Deleted, ?db\<lparr>delivery_challans := (delivery_challans ?db)(''dc-1'' := None),
                     sales_orders := (sales_orders ?db)(''so-1'' \<mapsto> revertOrder sampleOrder)\<rparr>)"
    by (simp add: handleDelete_def calmEnv_def sampleTables_def sampleChallan_def Let_def)
  have ne: "sales_orders (snd (handleDelete calmEnv ''dc-1'' ?db)) ''so-1'' \<noteq> sales_orders ?db ''so-1''"
    by (simp add: r) (simp add: sampleTables_def revertOrder_def sampleOrder_def)
  from delete_restores_no_stock [of calmEnv "''dc-1''" ?db "''so-1''"] ne
  show ?thesis
    by (simp add: r) (simp add: sampleTables_def revertOrder_def sampleOrder_def)
qed

subsection \<open>Approval of dispatch documents\<close>

lemma approve_status:
  "statusOf (snd (handleApproveChallan env cid db)) cid = statusOf db cid \<or>
   statusOf (snd (handleApproveChallan env cid db)) cid = Some approved"
  by (auto simp: handleApproveChallan_def updateChallan_def statusOf_def split: option.splits)

lemma reject_status:
  "statusOf (snd (handleRejectChallan env (Some cid) reason db)) cid = statusOf db cid \<or>
   (trim reason \<noteq> [] \<and>
    statusOf (snd (handleRejectChallan env (Some cid) reason db)) cid = Some rejected)"
  by (auto simp: handleRejectChallan_def updateChallan_def statusOf_def split: option.splits)

lemma edit_status:
  "statusOf (snd (handleSubmit_editing env cid formData originalItems items db)) cid =
     statusOf db cid \<or>
   statusOf (snd (handleSubmit_editing env cid formData originalItems items db)) cid =
     Some pending_approval"
  by (auto simp: handleSubmit_editing_def statusOf_def updateChallanData_def Let_def
      split: option.splits)

text \<open>A reason of white space only, here a no-break space and a space, is refused.\<close>

lemma blank_reason_refused:
  "handleRejectChallan env (Some challanId) [160, 32] db = (ReasonAlert, db)"
  by (simp add: handleRejectChallan_def trim_def isWhiteSpace_def)

text \<open>
  Claim C7, as stated, fails: approved is not terminal, in two ways. First, a user of the
  role \<^verbatim>\<open>sales\<close> opens the approved document \<open>dc-1\<close> for editing and saves it with its
  items unchanged; the save writes \<^verbatim>\<open>approval_status: 'pending_approval'\<close>. Second, the
  list of an administrator still shows \<open>dc-1\<close> as pending after it has been approved;
  the reject control is rendered from the listed row, the handler updates the stored row
  by id without looking at its status, and the stored document goes from approved to
  rejected.
\<close>

theorem approved_is_not_terminal_counterexample:
  "statusOf (sampleTables approved None) ''dc-1'' = Some approved \<and>
   statusOf (challanStep calmEnv (Some ''sales'') (sampleChallan approved None) ''dc-1''
       (SaveEdit sampleForm [lineItem ''P'' ''A'' 20] [lineItem ''P'' ''A'' 20])
       (sampleTables approved None)) ''dc-1'' = Some pending_approval \<and>
   statusOf (challanStep calmEnv (Some ''admin'') (sampleChallan pending_approval None) ''dc-1''
       (ConfirmReject (codeUnits ''wrong batch'')) (sampleTables approved None)) ''dc-1'' =
     Some rejected"
proof -
  have t: "trim (codeUnits ''wrong batch'') \<noteq> []"
    by (simp add: trim_def codeUnits_def isWhiteSpace_def)
  have 1: "statusOf (sampleTables approved None) ''dc-1'' = Some approved"
    by (simp add: statusOf_def sampleTables_def sampleChallan_def)
  have 2: "statusOf (challanStep calmEnv (Some ''sales'') (sampleChallan approved None) ''dc-1''
       (SaveEdit sampleForm [lineItem ''P'' ''A'' 20] [lineItem ''P'' ''A'' 20])
       (sampleTables approved None)) ''dc-1'' = Some pending_approval"
    by (simp add: statusOf_def challanStep_def canManage_def handleSubmit_editing_def
        invalidItem_def lineItem_def calmEnv_def sampleTables_def sampleChallan_def
        updateChallanData_def Let_def)
  have 3: "statusOf (challanStep calmEnv (Some ''admin'') (sampleChallan pending_approval None)
       ''dc-1'' (ConfirmReject (codeUnits ''wrong batch'')) (sampleTables approved None)) ''dc-1'' =
     Some rejected"
    using t
    by (simp add: statusOf_def challanStep_def approvalControlsShown_def handleRejectChallan_def
        updateChallan_def calmEnv_def sampleTables_def sampleChallan_def)
  from 1 2 3 show ?thesis by simp
qed

text \<open>
  Claim C7, amended. Whenever an action on a row of the loaded list changes the stored
  approval status of the document, either the list shows the row as pending, the user's
  role is \<^verbatim>\<open>admin\<close>, and the action is an approval (to approved) or a rejection with a
  reason that is not blank (to rejected); or the action is the saving of an edit by a role
  that may manage documents, which sets the status to pending whatever it was. When the
  listed row has the stored status, the approval controls lead only from pending to
  approved or rejected; they do not check the stored status, so from a list that is out of
  date they also change a document that is approved or rejected already.
\<close>

theorem approval_transitions:
  assumes "statusOf db challanId = Some s"
    and "statusOf (challanStep env role listed challanId action db) challanId = Some s'"
    and "s' \<noteq> s"
  shows "(approval_status listed = pending_approval \<and> role = Some ''admin'' \<and>
           (approval_status listed = s \<longrightarrow> s = pending_approval) \<and>
           ((action = ClickApprove \<and> s' = approved) \<or>
            (\<exists>reason. action = ConfirmReject reason \<and> trim reason \<noteq> [] \<and> s' = rejected))) \<or>
         (\<exists>formData originalItems items.
            action = SaveEdit formData originalItems items \<and> canManage role \<and>
            s' = pending_approval)"
proof (cases action)
  case ClickApprove
  with assms approve_status [of env challanId db] show ?thesis
    by (auto simp: challanStep_def approvalControlsShown_def split: if_splits)
next
  case (ConfirmReject reason)
  with assms reject_status [of env challanId reason db] show ?thesis
    by (auto simp: challanStep_def approvalControlsShown_def split: if_splits)
next
  case (SaveEdit formData originalItems items)
  with assms edit_status [of env challanId formData originalItems items db] show ?thesis
    by (auto simp: challanStep_def split: if_splits)
qed

text \<open>
  An administrator rejects the pending document \<open>dc-1\<close>, which the list shows as it is
  stored, giving a reason.
\<close>

theorem approval_transitions_witness:
  "statusOf (sampleTables pending_approval None) ''dc-1'' = Some pending_approval \<and>
   statusOf (challanStep calmEnv (Some ''admin'') (sampleChallan pending_approval None) ''dc-1''
       (ConfirmReject (codeUnits ''wrong batch'')) (sampleTables pending_approval None)) ''dc-1'' =
     Some rejected \<and>
   rejected \<noteq> pending_approval \<and>
   approval_status (sampleChallan pending_approval None) = pending_approval \<and>
   trim (codeUnits ''wrong batch'') \<noteq> []"
proof -
  have t: "trim (codeUnits ''wrong batch'') \<noteq> []"
    by (simp add: trim_def codeUnits_def isWhiteSpace_def)
  have h1: "statusOf (sampleTables pending_approval None) ''dc-1'' = Some pending_approval"
    by (simp add: statusOf_def sampleTables_def sampleChallan_def)
  have h2: "statusOf (challanStep calmEnv (Some ''admin'') (sampleChallan pending_approval None)
       ''dc-1'' (ConfirmReject (codeUnits ''wrong batch'')) (sampleTables pending_approval None))
       ''dc-1'' = Some rejected"
    using t
    by (simp add: statusOf_def challanStep_def approvalControlsShown_def handleRejectChallan_def
        updateChallan_def calmEnv_def sampleTables_def sampleChallan_def)
  have h3: "rejected \<noteq> pending_approval" by simp
  from approval_transitions [OF h1 h2 h3] show ?thesis using h1 h2 by auto
qed

subsection \<open>Material returns\<close>

lemma itemsToInsert_rows:
  "itemsToInsert rid validItems =
     map (\<lambda>item. \<lparr>return_id = rid, row_product_id = ret_product_id item,
                   row_batch_id = ret_batch_id item,
                   row_quantity_returned = quantity_returned item,
                   row_original_quantity = original_quantity item,
                   row_condition = condition item, row_notes = ret_notes item\<rparr>) validItems"
  by (simp add: itemsToInsert_def)

text \<open>
  Claim C9. The creation of a material return ends in an alert, with the tables as they
  were, when no item has a positive returned quantity or when an item with a positive
  returned quantity exceeds its original quantity. When the return is created, its row is
  appended with the fields of the form and the status \<^verbatim>\<open>pending_approval\<close>, and the item
  rows appended are, in order, one row for each item with a positive returned quantity,
  carrying the fields of that item, and no other row.
\<close>

theorem return_validation:
  "((filter (\<lambda>item. 0 < quantity_returned item) returnItems = [] \<or>
     list_ex (\<lambda>item. 0 < quantity_returned item \<and> original_quantity item < quantity_returned item)
       returnItems) \<longrightarrow>
      (\<exists>msg. fst (handleSubmit_return env formData returnItems db) = ReturnAlert msg) \<and>
      snd (handleSubmit_return env formData returnItems db) = db) \<and>
   (fst (handleSubmit_return env formData returnItems db) = ReturnCreated \<longrightarrow>
      material_returns (snd (handleSubmit_return env formData returnItems db)) =
        material_returns db @
          [(new_return_id env,
            \<lparr>mr_customer_id = ret_customer_id formData,
             mr_original_dc_id = original_dc_id formData,
             mr_return_date = return_date formData,
             mr_return_type = return_type formData,
             mr_return_reason = return_reason formData,
             mr_notes = return_form_notes formData,
             mr_status = ''pending_approval'',
             mr_created_by = user_id env\<rparr>)] \<and>
      material_return_items (snd (handleSubmit_return env formData returnItems db)) =
        material_return_items db @
          map (\<lambda>item. \<lparr>return_id = new_return_id env, row_product_id = ret_product_id item,
                        row_batch_id = ret_batch_id item,
                        row_quantity_returned = quantity_returned item,
                        row_original_quantity = original_quantity item,
                        row_condition = condition item, row_notes = ret_notes item\<rparr>)
            (filter (\<lambda>item. 0 < quantity_returned item) returnItems) \<and>
      list_all (\<lambda>row. 0 < row_quantity_returned row \<and>
                      row_quantity_returned row \<le> row_original_quantity row)
        (drop (length (material_return_items db))
           (material_return_items (snd (handleSubmit_return env formData returnItems db)))))"
proof -
  have ex: "list_ex (\<lambda>item. original_quantity item < quantity_returned item)
              (filter (\<lambda>item. 0 < quantity_returned item) returnItems) =
            list_ex (\<lambda>item. 0 < quantity_returned item \<and> original_quantity item < quantity_returned item)
              returnItems"
    by (auto simp: list_ex_iff)
  show ?thesis
    by (auto simp: handleSubmit_return_def Let_def ex itemsToInsert_rows list_all_iff list_ex_iff
        not_less)
qed

text \<open>
  Three submissions: nothing returned; 30 returned of 10 dispatched; and 5 returned of 20
  and 8 of 8, next to an item with nothing returned, which is created with two item rows.
\<close>

theorem return_validation_witness:
  "handleSubmit_return returnEnv sampleReturnForm [returnItem ''A'' 0 20] noReturns =
     (ReturnAlert ''Please enter at least one item with return quantity'', noReturns) \<and>
   handleSubmit_return returnEnv sampleReturnForm [returnItem ''A'' 5 20, returnItem ''B'' 30 10]
       noReturns =
     (ReturnAlert ''Return quantity cannot exceed original quantity'', noReturns) \<and>
   handleSubmit_return returnEnv sampleReturnForm
       [returnItem ''A'' 5 20, returnItem ''B'' 0 10, returnItem ''C'' 8 8] noReturns =
     (ReturnCreated,
      \<lparr>material_returns =
         [(''ret-1'',
           \<lparr>mr_customer_id = ''cust-1'', mr_original_dc_id = ''dc-1'',
            mr_return_date = ''2025-03-05'', mr_return_type = ''quality_issue'',
            mr_return_reason = ''damaged drums'', mr_notes = [],
            mr_status = ''pending_approval'', mr_created_by = Some ''user-1''\<rparr>)],
       material_return_items =
         [\<lparr>return_id = ''ret-1'', row_product_id = ''P'', row_batch_id = ''A'',
           row_quantity_returned = 5, row_original_quantity = 20, row_condition = ''good'',
           row_notes = Some []\<rparr>,
          \<lparr>return_id = ''ret-1'', row_product_id = ''P'', row_batch_id = ''C'',
           row_quantity_returned = 8, row_original_quantity = 8, row_condition = ''good'',
           row_notes = Some []\<rparr>]\<rparr>)"
proof -
  let ?none = "[returnItem ''A'' 0 20]"
  let ?over = "[returnItem ''A'' 5 20, returnItem ''B'' 30 10]"
  let ?good = "[returnItem ''A'' 5 20, returnItem ''B'' 0 10, returnItem ''C'' 8 8]"
  have a1: "filter (\<lambda>item. 0 < quantity_returned item) ?none = []"
    by (simp add: returnItem_def)
  have a2: "list_ex (\<lambda>item. 0 < quantity_returned item \<and> original_quantity item < quantity_returned item)
              ?over"
    by (simp add: returnItem_def)
  have m1: "fst (handleSubmit_return returnEnv sampleReturnForm ?none noReturns) =
      ReturnAlert ''Please enter at least one item with return quantity''"
    by (simp add: handleSubmit_return_def sampleReturnForm_def returnItem_def)
  have m2: "fst (handleSubmit_return returnEnv sampleReturnForm ?over noReturns) =
      ReturnAlert ''Return quantity cannot exceed original quantity''"
    by (simp add: handleSubmit_return_def sampleReturnForm_def returnItem_def)
  have a3: "fst (handleSubmit_return returnEnv sampleReturnForm ?good noReturns) = ReturnCreated"
    by (simp add: handleSubmit_return_def sampleReturnForm_def returnItem_def returnEnv_def)
  note rv = return_validation [where env = returnEnv and formData = sampleReturnForm
      and db = noReturns]
  from rv [where returnItems = ?none] a1
  have r1: "snd (handleSubmit_return returnEnv sampleReturnForm ?none noReturns) = noReturns"
    by blast
  from rv [where returnItems = ?over] a2
  have r2: "snd (handleSubmit_return returnEnv sampleReturnForm ?over noReturns) = noReturns"
    by blast
  from rv [where returnItems = ?good, THEN conjunct2, THEN mp, OF a3]
  have r3: "material_returns (snd (handleSubmit_return returnEnv sampleReturnForm ?good noReturns)) =
      [(''ret-1'',
           \<lparr>mr_customer_id = ''cust-1'', mr_original_dc_id = ''dc-1'',
            mr_return_date = ''2025-03-05'', mr_return_type = ''quality_issue'',
            mr_return_reason = ''damaged drums'', mr_notes = [],
            mr_status = ''pending_approval'', mr_created_by = Some ''user-1''\<rparr>)]"
    and r4: "material_return_items
        (snd (handleSubmit_return returnEnv sampleReturnForm ?good noReturns)) =
      [\<lparr>return_id = ''ret-1'', row_product_id = ''P'', row_batch_id = ''A'',
           row_quantity_returned = 5, row_original_quantity = 20, row_condition = ''good'',
           row_notes = Some []\<rparr>,
          \<lparr>return_id = ''ret-1'', row_product_id = ''P'', row_batch_id = ''C'',
           row_quantity_returned = 8, row_original_quantity = 8, row_condition = ''good'',
           row_notes = Some []\<rparr>]"
    by (simp_all add: returnEnv_def noReturns_def sampleReturnForm_def returnItem_def)
  have eq: "\<And>p a b. fst p = a \<Longrightarrow> snd p = b \<Longrightarrow> p = (a, b)" by auto
  have tbl: "\<And>t rs is. material_returns t = rs \<Longrightarrow> material_return_items t = is \<Longrightarrow>
      t = \<lparr>material_returns = rs, material_return_items = is\<rparr>"
    by auto
  from eq [OF m1 r1] eq [OF m2 r2] eq [OF a3 tbl [OF r3 r4]] show ?thesis by simp
qed

subsection \<open>Recording a payment\<close>

lemma allocationRows_positive:
  "list_all (\<lambda>r. 0 < allocated_amount r) (allocationRows pid user selectedAllocations)"
  by (induction selectedAllocations) (auto simp: allocationRows_def)

lemma setKey_lookup: "map_of (setKey k v es) k = Some v"
  by (induction es) auto

lemma handleSubmit_payment_recorded:
  "fst (handleSubmit_payment env selectedInvoice formData selectedAllocations db) = PaymentRecorded \<longleftrightarrow>
     (selectedInvoice \<noteq> None \<and>
      totalAllocated selectedAllocations \<le> amount formData \<and>
      totalAllocated selectedAllocations \<noteq> 0 \<and>
      session_user env \<noteq> None \<and> \<not> payment_insert_error env \<and>
      \<not> allocations_insert_error env)"
  by (auto simp: handleSubmit_payment_def Let_def split: option.splits)

lemma handleSubmit_payment_rows:
  assumes "fst (handleSubmit_payment env selectedInvoice formData selectedAllocations db) = PaymentRecorded"
  shows "\<exists>user payment.
           session_user env = Some user \<and> cp_amount payment = amount formData \<and>
           customer_payments (snd (handleSubmit_payment env selectedInvoice formData selectedAllocations db)) =
             customer_payments db @ [(new_payment_id env, payment)] \<and>
           invoice_payment_allocations
               (snd (handleSubmit_payment env selectedInvoice formData selectedAllocations db)) =
             invoice_payment_allocations db @
               allocationRows (new_payment_id env) user selectedAllocations"
  using assms
  by (auto simp: handleSubmit_payment_def Let_def split: option.splits if_splits)

lemma handleSubmit_payment_rejected:
  assumes "amount formData < totalAllocated selectedAllocations \<or>
           totalAllocated selectedAllocations = 0"
  shows "fst (handleSubmit_payment env selectedInvoice formData selectedAllocations db) \<noteq> PaymentRecorded \<and>
         snd (handleSubmit_payment env selectedInvoice formData selectedAllocations db) = db"
  using assms
  by (auto simp: handleSubmit_payment_def Let_def split: option.splits)

text \<open>
  Claim C2, as stated, fails. A payment of 200 is submitted with 150 allocated to invoice 1,
  whose balance is 100, and 0 allocated to invoice 2. Neither the amount above the balance
  nor the amount that is not positive rejects the submission: the payment is recorded, with
  the one allocation row of 150.
\<close>

theorem unchecked_allocation_counterexample:
  "fst (handleSubmit_payment payEnv (Some (sampleInvoice ''1'' 100)) (paymentOf 200)
       [(''1'', 150), (''2'', 0)] noPayments) = PaymentRecorded \<and>
   invoice_payment_allocations (snd (handleSubmit_payment payEnv (Some (sampleInvoice ''1'' 100))
       (paymentOf 200) [(''1'', 150), (''2'', 0)] noPayments)) =
     [\<lparr>alloc_invoice_id = ''1'', alloc_payment_id = ''pay-1'', allocated_amount = 150,
       alloc_created_by = ''user-1''\<rparr>] \<and>
   balance (sampleInvoice ''1'' 100) = 100 \<and>
   \<not> boundsAsSpecified [sampleInvoice ''1'' 100, sampleInvoice ''2'' 80] 200
       [(''1'', 150), (''2'', 0)]"
  by (simp add: handleSubmit_payment_def totalAllocated_def allocationRows_def payEnv_def
      paymentOf_def noPayments_def sampleInvoice_def balance_def boundsAsSpecified_def
      withinBalance_def orNull_def Let_def)

text \<open>
  Claim C2, amended. A payment is recorded only if the sum of the entered allocation
  amounts is at most the payment amount and is not zero; then the payment row and one
  allocation row for each entry with a positive amount are appended, so every persisted
  allocated amount is positive. A submission whose sum exceeds the payment amount or is
  zero is not recorded and writes nothing. The bound by the invoice's remaining balance is
  not checked on submission; it is the amount input that enforces it: a typed value above
  the balance leaves the allocations as they are, any other value is stored for the
  invoice.
\<close>

theorem payment_validation:
  "(fst (handleSubmit_payment env selectedInvoice formData selectedAllocations db) = PaymentRecorded \<longrightarrow>
      totalAllocated selectedAllocations \<le> amount formData \<and>
      totalAllocated selectedAllocations \<noteq> 0 \<and>
      (\<exists>user payment.
           session_user env = Some user \<and> cp_amount payment = amount formData \<and>
           customer_payments (snd (handleSubmit_payment env selectedInvoice formData selectedAllocations db)) =
             customer_payments db @ [(new_payment_id env, payment)] \<and>
           invoice_payment_allocations
               (snd (handleSubmit_payment env selectedInvoice formData selectedAllocations db)) =
             invoice_payment_allocations db @
               allocationRows (new_payment_id env) user selectedAllocations \<and>
           list_all (\<lambda>r. 0 < allocated_amount r)
             (allocationRows (new_payment_id env) user selectedAllocations))) \<and>
   (amount formData < totalAllocated selectedAllocations \<or> totalAllocated selectedAllocations = 0 \<longrightarrow>
      fst (handleSubmit_payment env selectedInvoice formData selectedAllocations db) \<noteq> PaymentRecorded \<and>
      snd (handleSubmit_payment env selectedInvoice formData selectedAllocations db) = db) \<and>
   (balance invoice < v \<longrightarrow>
      onAllocationChange invoice (Some v) selectedAllocations = selectedAllocations) \<and>
   (v \<le> balance invoice \<longrightarrow>
      map_of (onAllocationChange invoice (Some v) selectedAllocations) (invoice_id invoice) = Some v)"
proof (intro conjI impI)
  assume rec: "fst (handleSubmit_payment env selectedInvoice formData selectedAllocations db) = PaymentRecorded"
  from rec show "totalAllocated selectedAllocations \<le> amount formData"
    by (simp add: handleSubmit_payment_recorded)
  from rec show "totalAllocated selectedAllocations \<noteq> 0"
    by (simp add: handleSubmit_payment_recorded)
  from handleSubmit_payment_rows [OF rec]
  show "\<exists>user payment.
           session_user env = Some user \<and> cp_amount payment = amount formData \<and>
           customer_payments (snd (handleSubmit_payment env selectedInvoice formData selectedAllocations db)) =
             customer_payments db @ [(new_payment_id env, payment)] \<and>
           invoice_payment_allocations
               (snd (handleSubmit_payment env selectedInvoice formData selectedAllocations db)) =
             invoice_payment_allocations db @
               allocationRows (new_payment_id env) user selectedAllocations \<and>
           list_all (\<lambda>r. 0 < allocated_amount r)
             (allocationRows (new_payment_id env) user selectedAllocations)"
    using allocationRows_positive by blast
next
  assume "amount formData < totalAllocated selectedAllocations \<or> totalAllocated selectedAllocations = 0"
  from handleSubmit_payment_rejected [OF this]
  show "fst (handleSubmit_payment env selectedInvoice formData selectedAllocations db) \<noteq> PaymentRecorded"
    and "snd (handleSubmit_payment env selectedInvoice formData selectedAllocations db) = db"
    by simp_all
next
  assume "balance invoice < v"
  then show "onAllocationChange invoice (Some v) selectedAllocations = selectedAllocations"
    by (simp add: onAllocationChange_def)
next
  assume "v \<le> balance invoice"
  then show "map_of (onAllocationChange invoice (Some v) selectedAllocations) (invoice_id invoice) = Some v"
    by (simp add: onAllocationChange_def setKey_lookup)
qed

theorem payment_validation_witness:
  "fst (handleSubmit_payment payEnv (Some (sampleInvoice ''1'' 100)) (paymentOf 100)
       [(''1'', 60), (''2'', 40)] noPayments) = PaymentRecorded \<and>
   totalAllocated [(''1'', 60), (''2'', 40)] = 100 \<and>
   map allocated_amount (invoice_payment_allocations (snd (handleSubmit_payment payEnv
       (Some (sampleInvoice ''1'' 100)) (paymentOf 100) [(''1'', 60), (''2'', 40)] noPayments))) =
     [60, 40] \<and>
   amount (paymentOf 100) < totalAllocated [(''1'', 150)] \<and>
   snd (handleSubmit_payment payEnv (Some (sampleInvoice ''1'' 100)) (paymentOf 100)
       [(''1'', 150)] noPayments) = noPayments \<and>
   balance (sampleInvoice ''1'' 100) < 150 \<and>
   onAllocationChange (sampleInvoice ''1'' 100) (Some 150) [(''1'', 60), (''2'', 40)] =
     [(''1'', 60), (''2'', 40)] \<and>
   70 \<le> balance (sampleInvoice ''1'' 100) \<and>
   map_of (onAllocationChange (sampleInvoice ''1'' 100) (Some 70) [(''1'', 60), (''2'', 40)])
     (invoice_id (sampleInvoice ''1'' 100)) = Some 70"
proof -
  have t: "totalAllocated [(''1'', 60), (''2'', 40)] = 100" "totalAllocated [(''1'', 150)] = 150"
    by (simp_all add: totalAllocated_def)
  have rec: "fst (handleSubmit_payment payEnv (Some (sampleInvoice ''1'' 100)) (paymentOf 100)
       [(''1'', 60), (''2'', 40)] noPayments) = PaymentRecorded"
    by (simp add: handleSubmit_payment_def t payEnv_def paymentOf_def Let_def)
  have over: "amount (paymentOf 100) < totalAllocated [(''1'', 150)]"
    by (simp add: t paymentOf_def)
  have b: "balance (sampleInvoice ''1'' 100) = 100"
    by (simp add: balance_def sampleInvoice_def)
  have e: "session_user payEnv = Some ''user-1''" "new_payment_id payEnv = ''pay-1''"
    "invoice_payment_allocations noPayments = []"
    by (simp_all add: payEnv_def noPayments_def)
  have rows: "map allocated_amount (allocationRows ''pay-1'' ''user-1'' [(''1'', 60), (''2'', 40)]) =
      [60, 40]"
    by (simp add: allocationRows_def)
  from payment_validation [of payEnv "Some (sampleInvoice ''1'' 100)" "paymentOf 100"
      "[(''1'', 60), (''2'', 40)]" noPayments "sampleInvoice ''1'' 100" 150] rec
  have p1: "map allocated_amount (invoice_payment_allocations (snd (handleSubmit_payment payEnv
       (Some (sampleInvoice ''1'' 100)) (paymentOf 100) [(''1'', 60), (''2'', 40)] noPayments))) =
     [60, 40]"
    and p2: "onAllocationChange (sampleInvoice ''1'' 100) (Some 150) [(''1'', 60), (''2'', 40)] =
     [(''1'', 60), (''2'', 40)]"
    by (auto simp: e rows b)
  from payment_validation [of payEnv "Some (sampleInvoice ''1'' 100)" "paymentOf 100"
      "[(''1'', 150)]" noPayments "sampleInvoice ''1'' 100" 70] over
  have p3: "snd (handleSubmit_payment payEnv (Some (sampleInvoice ''1'' 100)) (paymentOf 100)
       [(''1'', 150)] noPayments) = noPayments"
    by blast
  from payment_validation [of payEnv "Some (sampleInvoice ''1'' 100)" "paymentOf 100"
      "[(''1'', 60), (''2'', 40)]" noPayments "sampleInvoice ''1'' 100" 70]
  have p4: "map_of (onAllocationChange (sampleInvoice ''1'' 100) (Some 70) [(''1'', 60), (''2'', 40)])
     (invoice_id (sampleInvoice ''1'' 100)) = Some 70"
    by (simp add: b)
  show ?thesis using rec t over p1 p2 p3 p4 by (simp add: b)
qed





subsection \<open>FIFO selection\<close>

lemma sort_key_head:
  assumes "sort_key f xs = y # ys"
  shows "y \<in> set xs \<and> (\<forall>x \<in> set xs. f y \<le> f x)"
proof -
  have "set (sort_key f xs) = set xs" by simp
  with assms have mem: "y \<in> set xs" and sub: "set ys \<subseteq> set xs"
    by (metis list.set_intros(1), metis set_subset_Cons)
  have "sorted (map f (sort_key f xs))" by (rule sorted_sort_key)
  with assms have "\<forall>x \<in> set ys. f y \<le> f x" by simp
  moreover have "set xs = insert y (set ys)"
    using assms \<open>set (sort_key f xs) = set xs\<close> by (metis list.simps(15))
  ultimately show ?thesis using mem by auto
qed

lemma sort_key_Nil_iff: "sort_key f xs = [] \<longleftrightarrow> xs = []"
  by (metis length_sort list.size(3) length_0_conv)

lemma set_loadBatches:
  "set (loadBatches False rows batches) = {b \<in> set rows. is_active b \<and> 0 < current_stock b}"
  by (auto simp: loadBatches_def batchesQuery_def Let_def)

lemma getFIFOBatch_None:
  "getFIFOBatch today batches productId = None \<longleftrightarrow>
     \<not> (\<exists>b \<in> set batches. product_id b = productId \<and> \<not> isExpired today (expiry_date b))"
proof -
  let ?ps = "filter (\<lambda>b. product_id b = productId \<and> \<not> isExpired today (expiry_date b)) batches"
  have "getFIFOBatch today batches productId = None \<longleftrightarrow> sort_key importTime ?ps = []"
    by (simp add: getFIFOBatch_def Let_def split: list.splits)
  also have "\<dots> \<longleftrightarrow> ?ps = []" by (rule sort_key_Nil_iff)
  also have "\<dots> \<longleftrightarrow> \<not> (\<exists>b \<in> set batches. product_id b = productId \<and>
      \<not> isExpired today (expiry_date b))"
    by (auto simp: filter_empty_conv)
  finally show ?thesis .
qed

lemma getFIFOBatch_Some:
  assumes "getFIFOBatch today batches productId = Some b"
  shows "b \<in> set batches \<and> product_id b = productId \<and> \<not> isExpired today (expiry_date b) \<and>
         (\<forall>b' \<in> set batches. product_id b' = productId \<and> \<not> isExpired today (expiry_date b') \<longrightarrow>
            importTime b \<le> importTime b')"
proof -
  let ?ps = "filter (\<lambda>b. product_id b = productId \<and> \<not> isExpired today (expiry_date b)) batches"
  from assms obtain rest where "sort_key importTime ?ps = b # rest"
    by (auto simp: getFIFOBatch_def Let_def split: list.splits)
  from sort_key_head [OF this] show ?thesis by auto
qed

text \<open>
  Claim C1, as stated, fails. Batch A was imported first and has a current stock of 100, all
  of it reserved; batch B was imported later and has 50 available. The query fetches both
  (it filters on the current stock), and the selection returns A, whose available stock is
  zero, although B qualifies.
\<close>

theorem reserved_batch_selected_counterexample:
  "getFIFOBatch 1740787200000
       (loadBatches False [sampleBatch ''A'' 100 100 None 1704067200000,
                      sampleBatch ''B'' 50 0 None 1706745600000] []) ''P'' =
     Some (sampleBatch ''A'' 100 100 None 1704067200000) \<and>
   availableStock (sampleBatch ''A'' 100 100 None 1704067200000) = 0 \<and>
   qualifies 1740787200000 ''P'' (sampleBatch ''B'' 50 0 None 1706745600000) \<and>
   \<not> fifoAsSpecified 1740787200000
       (loadBatches False [sampleBatch ''A'' 100 100 None 1704067200000,
                      sampleBatch ''B'' 50 0 None 1706745600000] []) ''P''
       (getFIFOBatch 1740787200000
          (loadBatches False [sampleBatch ''A'' 100 100 None 1704067200000,
                         sampleBatch ''B'' 50 0 None 1706745600000] []) ''P'')"
proof -
  let ?A = "sampleBatch ''A'' 100 100 None 1704067200000"
  let ?B = "sampleBatch ''B'' 50 0 None 1706745600000"
  have q: "loadBatches False [?A, ?B] [] = [?A, ?B]"
    by (simp add: loadBatches_def batchesQuery_def sampleBatch_def Let_def)
  have g: "getFIFOBatch 1740787200000 [?A, ?B] ''P'' = Some ?A"
    by (simp add: getFIFOBatch_def sampleBatch_def isExpired_def importTime_def Let_def)
  have a: "availableStock ?A = 0"
    by (simp add: availableStock_def sampleBatch_def)
  have b: "qualifies 1740787200000 ''P'' ?B"
    by (simp add: qualifies_def availableStock_def sampleBatch_def isExpired_def)
  have n: "\<not> qualifies 1740787200000 ''P'' ?A"
    by (simp add: qualifies_def a)
  show ?thesis
    unfolding q g using a b n by (simp add: fifoAsSpecified_def)
qed

text \<open>
  Claim C1, amended. For every product and every table of batches, the selection over the
  loaded snapshot returns a batch of least import time (a null date counting as time 0)
  among the rows that are active, have a positive current stock, match the product and are
  not expired; it returns none exactly when there is no such row. The reserved stock is not
  consulted.
\<close>

theorem fifo_selects_earliest_import:
  "(case getFIFOBatch today (loadBatches False rows batches) productId of
      None \<Rightarrow> \<not> list_ex (selectable today productId) rows
    | Some b \<Rightarrow>
        b \<in> set rows \<and> selectable today productId b \<and>
        (\<forall>b' \<in> set rows. selectable today productId b' \<longrightarrow> importTime b \<le> importTime b'))"
proof (cases "getFIFOBatch today (loadBatches False rows batches) productId")
  case None
  from None [unfolded getFIFOBatch_None]
  have "\<not> list_ex (selectable today productId) rows"
    by (auto simp: set_loadBatches selectable_def list_ex_iff)
  then show ?thesis by (simp add: None)
next
  case (Some b)
  from getFIFOBatch_Some [OF Some] show ?thesis
    by (auto simp: Some set_loadBatches selectable_def)
qed

text \<open>
  The scenario of the specification, with an expired batch X added: A (imported January
  2024, stock 100) is selected before B (imported February 2024, stock 50).
\<close>

theorem fifo_selects_earliest_import_witness:
  "getFIFOBatch 1740787200000
       (loadBatches False [sampleBatch ''B'' 50 0 None 1706745600000,
                      sampleBatch ''X'' 80 0 (Some 1706745600000) 1700000000000,
                      sampleBatch ''A'' 100 0 None 1704067200000] []) ''P'' =
     Some (sampleBatch ''A'' 100 0 None 1704067200000) \<and>
   selectable 1740787200000 ''P'' (sampleBatch ''A'' 100 0 None 1704067200000) \<and>
   selectable 1740787200000 ''P'' (sampleBatch ''B'' 50 0 None 1706745600000) \<and>
   \<not> selectable 1740787200000 ''P'' (sampleBatch ''X'' 80 0 (Some 1706745600000) 1700000000000) \<and>
   importTime (sampleBatch ''A'' 100 0 None 1704067200000) \<le>
     importTime (sampleBatch ''B'' 50 0 None 1706745600000)"
proof -
  let ?A = "sampleBatch ''A'' 100 0 None 1704067200000"
  let ?B = "sampleBatch ''B'' 50 0 None 1706745600000"
  let ?X = "sampleBatch ''X'' 80 0 (Some 1706745600000) 1700000000000"
  have q: "loadBatches False [?B, ?X, ?A] [] = [?X, ?A, ?B]"
    by (simp add: loadBatches_def batchesQuery_def sampleBatch_def Let_def)
  have g: "getFIFOBatch 1740787200000 [?X, ?A, ?B] ''P'' = Some ?A"
    by (simp add: getFIFOBatch_def sampleBatch_def isExpired_def importTime_def Let_def)
  have s: "selectable 1740787200000 ''P'' ?A" "selectable 1740787200000 ''P'' ?B"
    "\<not> selectable 1740787200000 ''P'' ?X"
    by (simp_all add: selectable_def sampleBatch_def isExpired_def)
  from fifo_selects_earliest_import [where today = 1740787200000 and rows = "[?B, ?X, ?A]"
      and productId = "''P''" and batches = "[]"]
  have "\<forall>b' \<in> set [?B, ?X, ?A]. selectable 1740787200000 ''P'' b' \<longrightarrow>
          importTime ?A \<le> importTime b'"
    unfolding q g by simp
  with s have "importTime ?A \<le> importTime ?B" by simp
  with s show ?thesis unfolding q g by simp
qed

subsection \<open>Numbering dispatch documents\<close>

lemma digit_cases: "d < 10 \<Longrightarrow> d \<in> {0, 1, 2, 3, 4, 5, 6, 7, 8, 9::nat}"
  by auto

lemma digitValue_digitChar: "d < 10 \<Longrightarrow> digitValue (digitChar d) = d"
  by (drule digit_cases) (auto simp: digitValue_def digitChar_def)

lemma isDigit_digitChar: "d < 10 \<Longrightarrow> isDigit (digitChar d)"
  by (drule digit_cases) (auto simp: isDigit_def digitChar_def)

lemma toString_digits: "list_all isDigit (toString n)"
proof (induction n rule: toString.induct)
  case (1 n)
  show ?case
  proof (cases "n < 10")
    case True
    then show ?thesis by (subst toString.simps) (simp add: isDigit_digitChar)
  next
    case False
    with 1 show ?thesis
      by (subst toString.simps) (simp add: isDigit_digitChar)
  qed
qed

lemma parseInt_snoc: "parseInt (ds @ [c]) = 10 * parseInt ds + digitValue c"
  by (simp add: parseInt_def)

lemma parseInt_toString: "parseInt (toString n) = n"
proof (induction n rule: toString.induct)
  case (1 n)
  show ?case
  proof (cases "n < 10")
    case True
    then show ?thesis
      by (subst toString.simps) (simp add: parseInt_def digitValue_digitChar)
  next
    case False
    with 1 have "parseInt (toString (n div 10)) = n div 10" by simp
    with False show ?thesis
      by (subst toString.simps) (simp add: parseInt_snoc digitValue_digitChar)
  qed
qed

lemma parseInt_zeros: "parseInt (replicate k (CHR ''0'') @ ds) = parseInt ds"
proof -
  have z: "digitValue (CHR ''0'') = 0" by (simp add: digitValue_def)
  have "foldl (\<lambda>acc c. 10 * acc + digitValue c) 0 (replicate k (CHR ''0'')) = 0"
    by (induction k) (simp_all add: z)
  then show ?thesis by (simp add: parseInt_def)
qed

lemma toString_nonempty: "toString n \<noteq> []"
  by (subst toString.simps) simp

lemma trailingDigits_after_dash:
  assumes "list_all isDigit ds"
  shows "trailingDigits (p @ ''-'' @ ds) = ds"
proof -
  have "takeWhile isDigit (rev ds @ CHR ''-'' # rev p) = rev ds"
    using assms by (simp add: takeWhile_tail isDigit_def list_all_iff)
  then show ?thesis by (simp add: trailingDigits_def)
qed

lemma challanSuffix_generated:
  "challanSuffix (''DO-'' @ yc @ ''-'' @ padStart 4 (CHR ''0'') (toString n)) = n"
proof -
  let ?ds = "padStart 4 (CHR ''0'') (toString n)"
  have d: "list_all isDigit ?ds"
  proof -
    have "isDigit (CHR ''0'')" by (simp add: isDigit_def)
    then have "list_all isDigit (replicate (4 - length (toString n)) (CHR ''0''))"
      by (simp add: list_all_iff)
    with toString_digits [of n] show ?thesis
      by (simp add: padStart_def)
  qed
  have ne: "?ds \<noteq> []" by (simp add: padStart_def toString_nonempty)
  have "trailingDigits ((''DO-'' @ yc) @ ''-'' @ ?ds) = ?ds"
    by (rule trailingDigits_after_dash [OF d])
  then have "challanSuffix (''DO-'' @ yc @ ''-'' @ ?ds) = parseInt ?ds"
    using ne by (simp add: challanSuffix_def Let_def)
  also have "\<dots> = n" by (simp add: padStart_def parseInt_zeros parseInt_toString)
  finally show ?thesis .
qed

lemma fold_max_ge: "(m::nat) \<le> fold max xs m \<and> (\<forall>x \<in> set xs. x \<le> fold max xs m)"
proof (induction xs arbitrary: m)
  case Nil show ?case by simp
next
  case (Cons a xs)
  from Cons.IH [of "max a m"] show ?case by auto
qed

lemma mathMax_ge: "x \<in> set numbers \<Longrightarrow> x \<le> mathMax numbers"
  using fold_max_ge [of "hd numbers" "tl numbers"]
  by (cases numbers) (auto simp: mathMax_def)

lemma mathMax_mem: "numbers \<noteq> [] \<Longrightarrow> mathMax numbers \<in> set numbers"
proof -
  have "\<And>m. fold max xs (m::nat) \<in> insert m (set xs)" for xs
  proof (induction xs)
    case Nil show ?case by simp
  next
    case (Cons a xs)
    from Cons [of "max a m"] show ?case by (auto simp: max_def split: if_splits)
  qed
  then show "numbers \<noteq> [] \<Longrightarrow> mathMax numbers \<in> set numbers"
    by (cases numbers) (auto simp: mathMax_def)
qed

lemma mathMax_Max: "numbers \<noteq> [] \<Longrightarrow> mathMax numbers = Max (set numbers)"
  by (rule Max_eqI [symmetric]) (simp_all add: mathMax_ge mathMax_mem)

lemma nextNumberOf_Some:
  "nextNumberOf (Some cs) = (if cs = [] then 1 else Max (challanSuffix ` set cs) + 1)"
  by (simp add: nextNumberOf_def Let_def mathMax_Max)

lemma nextNumberOf_gt: "c \<in> set cs \<Longrightarrow> challanSuffix c < nextNumberOf (Some cs)"
  using mathMax_ge [of "challanSuffix c" "map challanSuffix cs"]
  by (auto simp: nextNumberOf_def Let_def)

lemma padded_one: "padStart 4 (CHR ''0'') (toString (Suc 0)) = ''0001''"
  by (simp add: padStart_def toString.simps digitChar_def eval_nat_numeral)

lemma yearCodeOf_2026: "yearCodeOf 2026 None = ''26''"
  by (simp add: yearCodeOf_def toString.simps digitChar_def sliceLast2_def)

lemma yearCodeOf_2025: "yearCodeOf 2025 None = ''25''"
  by (simp add: yearCodeOf_def toString.simps digitChar_def sliceLast2_def)

lemma challansLike_sample:
  "challansLike ''25'' [''DO-25-0001'', ''DC-25-0007'', ''DO-24-0100''] =
     [''DO-25-0001'', ''DC-25-0007'']"
  by (simp add: challansLike_def startsWith_def)

lemma challanSuffix_samples:
  "challanSuffix ''DO-25-0001'' = 1" "challanSuffix ''DC-25-0007'' = 7"
  by (simp_all add: challanSuffix_def trailingDigits_def isDigit_def parseInt_def digitValue_def)

lemma padded_eight: "padStart 4 (CHR ''0'') (toString 8) = ''0008''"
  by (simp add: padStart_def toString.simps digitChar_def eval_nat_numeral)

text \<open>
  Claim C10, as stated, fails in its last part. In 2026 the lookup of the stored challan
  numbers comes back with an error, that is, without data. No exception is raised, the
  missing data is read as "no challans", and the result is \<open>DO-26-0001\<close>, not the
  constant.
\<close>

theorem lookup_error_counterexample:
  "generateNextChallanNumber 2026 Answered None ErrorAnswer [''DO-26-0001'', ''DO-26-0002''] =
     ''DO-26-0001'' \<and>
   generateNextChallanNumber 2026 Answered None ErrorAnswer [''DO-26-0001'', ''DO-26-0002''] \<noteq>
     ''DO-25-0001''"
  by (simp add: generateNextChallanNumber_def yearCodeOf_2026 nextNumberOf_def padded_one Let_def)

text \<open>
  Claim C10, amended. When both lookups answer, the generated number is \<open>DO-YY-\<close>
  followed by the decimal numeral, padded with zeros to at least four digits, of one plus
  the greatest trailing number among the stored challan numbers that start with
  \<open>DO-YY\<close> or \<open>DC-YY\<close> (a number without trailing digits counting as 0), or of 1 when
  there are none; so the trailing number of the new challan number is greater than that of
  every such stored number. A lookup of the challan numbers that comes back without data is
  read as "none": the result is \<open>DO-YY-0001\<close>. Only when a lookup throws is the constant
  \<open>DO-25-0001\<close> returned.
\<close>

theorem next_challan_number:
  "(settingsLookup = Thrown \<or> challansLookup = Thrown \<longrightarrow>
      generateNextChallanNumber currentYear settingsLookup settingsRow challansLookup stored =
        ''DO-25-0001'') \<and>
   (settingsLookup \<noteq> Thrown \<and> challansLookup = ErrorAnswer \<longrightarrow>
      generateNextChallanNumber currentYear settingsLookup settingsRow challansLookup stored =
        ''DO-'' @ yearCodeOf currentYear (if settingsLookup = Answered then settingsRow else None) @
        ''-0001'') \<and>
   (settingsLookup \<noteq> Thrown \<and> challansLookup = Answered \<longrightarrow>
      (let yc = yearCodeOf currentYear (if settingsLookup = Answered then settingsRow else None);
           existing = challansLike yc stored;
           generated =
             generateNextChallanNumber currentYear settingsLookup settingsRow challansLookup stored
       in generated =
            ''DO-'' @ yc @ ''-'' @
            padStart 4 (CHR ''0'')
              (toString (if existing = [] then 1 else Max (challanSuffix ` set existing) + 1)) \<and>
          (existing = [] \<longrightarrow> generated = ''DO-'' @ yc @ ''-0001'') \<and>
          (\<forall>c \<in> set existing. challanSuffix c < challanSuffix generated)))"
proof (intro conjI impI)
  assume "settingsLookup = Thrown \<or> challansLookup = Thrown"
  then show "generateNextChallanNumber currentYear settingsLookup settingsRow challansLookup stored =
        ''DO-25-0001''"
    by (auto simp: generateNextChallanNumber_def Let_def)
next
  assume "settingsLookup \<noteq> Thrown \<and> challansLookup = ErrorAnswer"
  then show "generateNextChallanNumber currentYear settingsLookup settingsRow challansLookup stored =
        ''DO-'' @ yearCodeOf currentYear (if settingsLookup = Answered then settingsRow else None) @
        ''-0001''"
    by (simp add: generateNextChallanNumber_def Let_def nextNumberOf_def padded_one)
next
  assume a: "settingsLookup \<noteq> Thrown \<and> challansLookup = Answered"
  define yc where "yc = yearCodeOf currentYear (if settingsLookup = Answered then settingsRow else None)"
  define existing where "existing = challansLike yc stored"
  define generated where "generated =
    generateNextChallanNumber currentYear settingsLookup settingsRow challansLookup stored"
  have g: "generated =
      ''DO-'' @ yc @ ''-'' @ padStart 4 (CHR ''0'') (toString (nextNumberOf (Some existing)))"
    using a by (simp add: generated_def generateNextChallanNumber_def Let_def yc_def existing_def)
  have s: "challanSuffix generated = nextNumberOf (Some existing)"
    unfolding g by (rule challanSuffix_generated)
  have 1: "generated = ''DO-'' @ yc @ ''-'' @ padStart 4 (CHR ''0'')
              (toString (if existing = [] then 1 else Max (challanSuffix ` set existing) + 1))"
    by (simp add: g nextNumberOf_Some)
  have 2: "existing = [] \<longrightarrow> generated = ''DO-'' @ yc @ ''-0001''"
    by (simp add: g nextNumberOf_Some padded_one)
  have 3: "\<forall>c \<in> set existing. challanSuffix c < challanSuffix generated"
    by (simp add: s nextNumberOf_gt)
  from 1 2 3 show "let yc = yearCodeOf currentYear (if settingsLookup = Answered then settingsRow else None);
           existing = challansLike yc stored;
           generated =
             generateNextChallanNumber currentYear settingsLookup settingsRow challansLookup stored
       in generated =
            ''DO-'' @ yc @ ''-'' @
            padStart 4 (CHR ''0'')
              (toString (if existing = [] then 1 else Max (challanSuffix ` set existing) + 1)) \<and>
          (existing = [] \<longrightarrow> generated = ''DO-'' @ yc @ ''-0001'') \<and>
          (\<forall>c \<in> set existing. challanSuffix c < challanSuffix generated)"
    unfolding Let_def yc_def [symmetric] existing_def [symmetric] generated_def [symmetric]
    by blast
qed

theorem next_challan_number_witness:
  "generateNextChallanNumber 2025 Thrown None Answered [''DO-25-0001''] = ''DO-25-0001'' \<and>
   generateNextChallanNumber 2026 Answered None ErrorAnswer [''DO-26-0001''] = ''DO-26-0001'' \<and>
   generateNextChallanNumber 2025 Answered None Answered
       [''DO-25-0001'', ''DC-25-0007'', ''DO-24-0100''] = ''DO-25-0008'' \<and>
   challanSuffix ''DO-25-0001'' < challanSuffix ''DO-25-0008'' \<and>
   challanSuffix ''DC-25-0007'' < challanSuffix ''DO-25-0008''"
proof -
  from next_challan_number [of Thrown Answered 2025 None "[''DO-25-0001'']"]
  have w1: "generateNextChallanNumber 2025 Thrown None Answered [''DO-25-0001''] = ''DO-25-0001''"
    by simp
  from next_challan_number [of Answered ErrorAnswer 2026 None "[''DO-26-0001'']"]
  have w2: "generateNextChallanNumber 2026 Answered None ErrorAnswer [''DO-26-0001''] = ''DO-26-0001''"
    by (simp add: yearCodeOf_2026)
  have pre: "Answered \<noteq> Thrown \<and> Answered = Answered" by simp
  have i: "(if Answered = Answered then None else None) = (None::AppSettings option)" by simp
  have m: "(if [''DO-25-0001'', ''DC-25-0007''] = [] then 1
            else Max (challanSuffix ` set [''DO-25-0001'', ''DC-25-0007'']) + 1) = 8"
    by (simp add: challanSuffix_samples)
  from next_challan_number [of Answered Answered 2025 None
      "[''DO-25-0001'', ''DC-25-0007'', ''DO-24-0100'']",
      THEN conjunct2, THEN conjunct2, THEN mp, OF pre]
  have w3: "generateNextChallanNumber 2025 Answered None Answered
       [''DO-25-0001'', ''DC-25-0007'', ''DO-24-0100''] = ''DO-25-0008''"
    and w4: "\<forall>c \<in> set [''DO-25-0001'', ''DC-25-0007''].
        challanSuffix c < challanSuffix (generateNextChallanNumber 2025 Answered None Answered
          [''DO-25-0001'', ''DC-25-0007'', ''DO-24-0100''])"
    unfolding Let_def i yearCodeOf_2025 challansLike_sample m padded_eight
    by auto
  from w4 have "challanSuffix ''DO-25-0001'' < challanSuffix ''DO-25-0008''"
    and "challanSuffix ''DC-25-0007'' < challanSuffix ''DO-25-0008''"
    unfolding w3 by simp_all
  with w1 w2 w3 show ?thesis by simp
qed

end
